theory Spec2Isabelle
  imports Main "HOL-Library.Word"
begin

section \<open>Machine integers, errors and containers used by MultiBody.h\<close>

text \<open>
  The header is read on an LP64 platform: \<open>int\<close> is a 32-bit two's complement value and
  \<open>std::size_t\<close> an unsigned 64-bit one. Every index accessor takes \<open>int num\<close> and hands it
  to \<open>std::vector::operator[]\<close> or \<open>std::vector::at\<close>, whose parameter is a \<open>size_type\<close>:
  the implicit conversion sign-extends the 32 bits to 64 and reads them as unsigned.
\<close>

type_synonym c_int = "32 word"

definition to_size_t :: "c_int \<Rightarrow> nat" where
  "to_size_t num = unat (scast num :: 64 word)"

text \<open>
  What a call can end in besides a value. \<open>OutOfRange\<close> is the exception
  \<open>std::out_of_range\<close>, which both \<open>std::vector::at\<close> and \<open>std::unordered_map::at\<close> throw
  (the header documents \<open>@throw std::out_of_range\<close> on every safe accessor).
  \<open>UndefinedBehavior\<close> stands for what the C++ standard leaves undefined: \<open>operator[]\<close> past
  the end of a vector and dereferencing the \<open>end()\<close> iterator returned by \<open>find\<close>.
  \<open>StructuralMismatch\<close> is the construction failure that the specification names
  (section 7); only the constructor, whose definition is not among the sources, ends in it.
\<close>

datatype error = OutOfRange | UndefinedBehavior | StructuralMismatch

text \<open>\<open>v[n]\<close> on a \<open>std::vector\<close>: no bounds check.\<close>

definition vector_index :: "'a list \<Rightarrow> nat \<Rightarrow> error + 'a" where
  "vector_index v n = (if n < length v then Inr (v ! n) else Inl UndefinedBehavior)"

text \<open>\<open>v.at(n)\<close> on a \<open>std::vector\<close>: throws \<open>std::out_of_range\<close> unless \<open>n < v.size()\<close>.\<close>

definition vector_at :: "'a list \<Rightarrow> nat \<Rightarrow> error + 'a" where
  "vector_at v n = (if n < length v then Inr (v ! n) else Inl OutOfRange)"

text \<open>\<open>m.find(k)->second\<close> on a \<open>std::unordered_map\<close>: \<open>find\<close> returns \<open>end()\<close> for an absent key.\<close>

definition umap_find_second :: "('k \<rightharpoonup> 'v) \<Rightarrow> 'k \<Rightarrow> error + 'v" where
  "umap_find_second m k = (case m k of Some v \<Rightarrow> Inr v | None \<Rightarrow> Inl UndefinedBehavior)"

text \<open>\<open>m.at(k)\<close> on a \<open>std::unordered_map\<close>: throws \<open>std::out_of_range\<close> for an absent key.\<close>

definition umap_at :: "('k \<rightharpoonup> 'v) \<Rightarrow> 'k \<Rightarrow> error + 'v" where
  "umap_at m k = (case m k of Some v \<Rightarrow> Inr v | None \<Rightarrow> Inl OutOfRange)"


section \<open>The class MultiBody\<close>

text \<open>
  The private fields of \<open>class MultiBody\<close>, in declaration order; the field \<open>bodies_\<close>
  of the class is \<open>MB_bodies\<close> here, and so on (a name cannot end in an underscore).
  \<open>Body\<close>, \<open>Joint\<close> and \<open>sva::PTransform\<close> come from headers that the class only
  includes; the accessors never look inside them, so they are the type parameters \<open>'b\<close>,
  \<open>'j\<close> and \<open>'x\<close>. A \<open>std::size_t\<close> count is a natural number: it is the length of a
  vector and never the result of arithmetic.
\<close>

record ('b, 'j, 'x) MultiBody =
  MB_bodies :: "'b list"
  MB_joints :: "'j list"
  MB_pred :: "c_int list"
  MB_succ :: "c_int list"
  MB_parent :: "c_int list"
  MB_Xfrom :: "'x list"
  MB_Xto :: "'x list"
  MB_bodyId2Ind :: "c_int \<rightharpoonup> c_int"
  MB_jointId2Ind :: "c_int \<rightharpoonup> c_int"
  MB_nrParams :: c_int
  MB_nrDof :: c_int

subsection \<open>Counts and whole-sequence views\<close>

definition nrBodies :: "('b, 'j, 'x) MultiBody \<Rightarrow> nat" where
  "nrBodies mb = length (MB_bodies mb)"

definition nrJoints :: "('b, 'j, 'x) MultiBody \<Rightarrow> nat" where
  "nrJoints mb = length (MB_joints mb)"

definition bodies :: "('b, 'j, 'x) MultiBody \<Rightarrow> 'b list" where
  "bodies mb = MB_bodies mb"

definition joints :: "('b, 'j, 'x) MultiBody \<Rightarrow> 'j list" where
  "joints mb = MB_joints mb"

definition predecessors :: "('b, 'j, 'x) MultiBody \<Rightarrow> c_int list" where
  "predecessors mb = MB_pred mb"

definition successors :: "('b, 'j, 'x) MultiBody \<Rightarrow> c_int list" where
  "successors mb = MB_succ mb"

definition parents :: "('b, 'j, 'x) MultiBody \<Rightarrow> c_int list" where
  "parents mb = MB_parent mb"

definition transformsFrom :: "('b, 'j, 'x) MultiBody \<Rightarrow> 'x list" where
  "transformsFrom mb = MB_Xfrom mb"

definition transformsTo :: "('b, 'j, 'x) MultiBody \<Rightarrow> 'x list" where
  "transformsTo mb = MB_Xto mb"

definition nrParams :: "('b, 'j, 'x) MultiBody \<Rightarrow> c_int" where
  "nrParams mb = MB_nrParams mb"

definition nrDof :: "('b, 'j, 'x) MultiBody \<Rightarrow> c_int" where
  "nrDof mb = MB_nrDof mb"

subsection \<open>Unchecked accessors\<close>

definition body :: "('b, 'j, 'x) MultiBody \<Rightarrow> c_int \<Rightarrow> error + 'b" where
  "body mb num = vector_index (MB_bodies mb) (to_size_t num)"

definition joint :: "('b, 'j, 'x) MultiBody \<Rightarrow> c_int \<Rightarrow> error + 'j" where
  "joint mb num = vector_index (MB_joints mb) (to_size_t num)"

definition predecessor :: "('b, 'j, 'x) MultiBody \<Rightarrow> c_int \<Rightarrow> error + c_int" where
  "predecessor mb num = vector_index (MB_pred mb) (to_size_t num)"

definition successor :: "('b, 'j, 'x) MultiBody \<Rightarrow> c_int \<Rightarrow> error + c_int" where
  "successor mb num = vector_index (MB_succ mb) (to_size_t num)"

definition parent :: "('b, 'j, 'x) MultiBody \<Rightarrow> c_int \<Rightarrow> error + c_int" where
  "parent mb num = vector_index (MB_parent mb) (to_size_t num)"

definition transformFrom :: "('b, 'j, 'x) MultiBody \<Rightarrow> c_int \<Rightarrow> error + 'x" where
  "transformFrom mb num = vector_index (MB_Xfrom mb) (to_size_t num)"

definition transformTo :: "('b, 'j, 'x) MultiBody \<Rightarrow> c_int \<Rightarrow> error + 'x" where
  "transformTo mb num = vector_index (MB_Xto mb) (to_size_t num)"

definition bodyIndexById :: "('b, 'j, 'x) MultiBody \<Rightarrow> c_int \<Rightarrow> error + c_int" where
  "bodyIndexById mb ident = umap_find_second (MB_bodyId2Ind mb) ident"

definition jointIndexById :: "('b, 'j, 'x) MultiBody \<Rightarrow> c_int \<Rightarrow> error + c_int" where
  "jointIndexById mb ident = umap_find_second (MB_jointId2Ind mb) ident"

subsection \<open>Safe accessors (the versions for the python binding)\<close>

definition sBody :: "('b, 'j, 'x) MultiBody \<Rightarrow> c_int \<Rightarrow> error + 'b" where
  "sBody mb num = vector_at (MB_bodies mb) (to_size_t num)"

definition sJoint :: "('b, 'j, 'x) MultiBody \<Rightarrow> c_int \<Rightarrow> error + 'j" where
  "sJoint mb num = vector_at (MB_joints mb) (to_size_t num)"

definition sPredecessor :: "('b, 'j, 'x) MultiBody \<Rightarrow> c_int \<Rightarrow> error + c_int" where
  "sPredecessor mb num = vector_at (MB_pred mb) (to_size_t num)"

definition sSuccessor :: "('b, 'j, 'x) MultiBody \<Rightarrow> c_int \<Rightarrow> error + c_int" where
  "sSuccessor mb num = vector_at (MB_succ mb) (to_size_t num)"

definition sParent :: "('b, 'j, 'x) MultiBody \<Rightarrow> c_int \<Rightarrow> error + c_int" where
  "sParent mb num = vector_at (MB_parent mb) (to_size_t num)"

definition sTransformFrom :: "('b, 'j, 'x) MultiBody \<Rightarrow> c_int \<Rightarrow> error + 'x" where
  "sTransformFrom mb num = vector_at (MB_Xfrom mb) (to_size_t num)"

definition sTransformTo :: "('b, 'j, 'x) MultiBody \<Rightarrow> c_int \<Rightarrow> error + 'x" where
  "sTransformTo mb num = vector_at (MB_Xto mb) (to_size_t num)"

definition sBodyIndexById :: "('b, 'j, 'x) MultiBody \<Rightarrow> c_int \<Rightarrow> error + c_int" where
  "sBodyIndexById mb ident = umap_at (MB_bodyId2Ind mb) ident"

definition sJointIndexById :: "('b, 'j, 'x) MultiBody \<Rightarrow> c_int \<Rightarrow> error + c_int" where
  "sJointIndexById mb ident = umap_at (MB_jointId2Ind mb) ident"

subsection \<open>Indices in range\<close>

text \<open>An \<open>int\<close> index is in range for a sequence when it is one of its positions.\<close>

definition index_in_range :: "c_int \<Rightarrow> 'a list \<Rightarrow> bool" where
  "index_in_range num v \<longleftrightarrow> 0 \<le> sint num \<and> sint num < int (length v)"

text \<open>
  A \<open>std::vector\<close> never holds more than \<open>PTRDIFF_MAX\<close> elements (its \<open>max_size()\<close>);
  a list has no such limit, so the limit is said where it is needed.
\<close>

definition fits_vector :: "'a list \<Rightarrow> bool" where
  "fits_vector v \<longleftrightarrow> length v < 2 ^ 63"


section \<open>Construction\<close>

text \<open>
  The constructor \<open>MultiBody(bodies, joints, pred, succ, parent, Xfrom, Xto)\<close> is declared
  in \<open>MultiBody.h\<close> (lines 52 to 55) and defined in a file that is not among the sources,
  and so are the classes \<open>Body\<close> and \<open>Joint\<close>, whose headers \<open>MultiBody.h\<close> includes.
  This section follows the specification for them.
\<close>

text \<open>
  Modelled from the spec: the class \<open>Body\<close> of \<open>Body.h\<close>. Section 3 gives a body an integer
  identity \<open>id\<close>; whatever else it holds is the extension part of the record.
\<close>

record Body =
  Body_id :: c_int

text \<open>
  Modelled from the spec: the class \<open>Joint\<close> of \<open>Joint.h\<close>. Section 3 gives a joint an
  integer identity \<open>id\<close> and the two counts \<open>params\<close> and \<open>dof\<close>; whatever else it holds is
  the extension part of the record.
\<close>

record Joint =
  Joint_id :: c_int
  Joint_params :: c_int
  Joint_dof :: c_int

text \<open>
  Modelled from the spec: the pass of the constructor that fills an id table
  (\<open>bodyId2Ind_\<close> from the ids of the bodies, \<open>jointId2Ind_\<close> from the ids of the joints).
  Section 4.1 has the table built in one pass over the sequence, each id recorded with the
  index at which it is seen. The index is stored as an \<open>int\<close>, the tables being
  \<open>std::unordered_map<int, int>\<close>. The ids of a valid construction are pairwise different
  (section 3, invariant 4), and only such sequences are reasoned about below: for an id
  that occurs twice the specification gives no single answer (section 3 has construction
  fail, section 4.1 speaks of the first index seen and also of a later entry overwriting
  an earlier one), and the update written here settles nothing about that case.
\<close>

fun id2ind :: "c_int list \<Rightarrow> nat \<Rightarrow> (c_int \<rightharpoonup> c_int) \<Rightarrow> (c_int \<rightharpoonup> c_int)" where
  "id2ind [] i m = m"
| "id2ind (k # ks) i m = id2ind ks (Suc i) (m(k \<mapsto> word_of_nat i))"

text \<open>
  Modelled from the spec: the pass of the constructor that computes \<open>nrParams_\<close> and
  \<open>nrDof_\<close>. Section 4.1 has them computed by summing the per-joint fields; the fields of
  the class are \<open>int\<close>, so the running total is an \<open>int\<close> that starts at 0. The addition
  wraps around here; a total is read as a number only where the sum is representable.
\<close>

definition sum_counts :: "c_int list \<Rightarrow> c_int" where
  "sum_counts cs = fold (\<lambda>c acc. acc + c) cs 0"

text \<open>
  Modelled from the spec: the length check of the constructor. Section 3 states the two
  invariants \<open>bodies.size() == parent.size()\<close> and
  \<open>joints.size() == pred.size() == succ.size() == Xfrom.size() == Xto.size()\<close>.
\<close>

definition lengths_consistent ::
  "'b list \<Rightarrow> 'j list \<Rightarrow> c_int list \<Rightarrow> c_int list \<Rightarrow> c_int list \<Rightarrow> 'x list \<Rightarrow> 'x list \<Rightarrow> bool" where
  "lengths_consistent bs js pred succ par Xfrom Xto \<longleftrightarrow>
     length bs = length par \<and> length js = length pred \<and> length pred = length succ \<and>
     length succ = length Xfrom \<and> length Xfrom = length Xto"

text \<open>
  Modelled from the spec: the constructor
  \<open>MultiBody(bodies, joints, pred, succ, parent, Xfrom, Xto)\<close>. Section 4.1 has it validate
  the lengths and fail with \<open>StructuralMismatch\<close> when they are inconsistent, and otherwise
  build the two id tables, compute the two sums and store the seven sequences. Nothing
  else is validated (section 4.1: index bounds, tree shape and acyclicity are trusted).
\<close>

definition MultiBody_ctor ::
  "'a Body_scheme list \<Rightarrow> 'c Joint_scheme list \<Rightarrow> c_int list \<Rightarrow> c_int list \<Rightarrow> c_int list \<Rightarrow>
     'x list \<Rightarrow> 'x list \<Rightarrow> error + ('a Body_scheme, 'c Joint_scheme, 'x) MultiBody" where
  "MultiBody_ctor bs js pred succ par Xfrom Xto =
     (if \<not> lengths_consistent bs js pred succ par Xfrom Xto then Inl StructuralMismatch
      else Inr \<lparr>MB_bodies = bs, MB_joints = js, MB_pred = pred, MB_succ = succ,
                MB_parent = par, MB_Xfrom = Xfrom, MB_Xto = Xto,
                MB_bodyId2Ind = id2ind (map Body_id bs) 0 Map.empty,
                MB_jointId2Ind = id2ind (map Joint_id js) 0 Map.empty,
                MB_nrParams = sum_counts (map Joint_params js),
                MB_nrDof = sum_counts (map Joint_dof js)\<rparr>)"

text \<open>A sum of \<open>int\<close> values is meaningful when it is itself an \<open>int\<close>.\<close>

definition int_range :: "int \<Rightarrow> bool" where
  "int_range k \<longleftrightarrow> - (2 ^ 31) \<le> k \<and> k < 2 ^ 31"


section \<open>A worked instance\<close>

text \<open>
  Three bodies with ids 10, 20, 30 and two joints with ids 100, 101, one parameter and one
  degree of freedom each; \<open>pred = [0, 0]\<close>, \<open>succ = [0, 1]\<close>, \<open>parent = [-1, 0, 0]\<close>.
  Transforms are stood for by numbers.
\<close>

definition tree_bodies :: "Body list" where
  "tree_bodies = [\<lparr>Body_id = 10\<rparr>, \<lparr>Body_id = 20\<rparr>, \<lparr>Body_id = 30\<rparr>]"

definition tree_joints :: "Joint list" where
  "tree_joints = [\<lparr>Joint_id = 100, Joint_params = 1, Joint_dof = 1\<rparr>,
                  \<lparr>Joint_id = 101, Joint_params = 1, Joint_dof = 1\<rparr>]"

definition tree :: "(Body, Joint, nat) MultiBody" where
  "tree = \<lparr>MB_bodies = tree_bodies, MB_joints = tree_joints,
            MB_pred = [0, 0], MB_succ = [0, 1], MB_parent = [- 1, 0, 0],
            MB_Xfrom = [5, 6], MB_Xto = [7, 8],
            MB_bodyId2Ind = [10 \<mapsto> 0, 20 \<mapsto> 1, 30 \<mapsto> 2],
            MB_jointId2Ind = [100 \<mapsto> 0, 101 \<mapsto> 1],
            MB_nrParams = 2, MB_nrDof = 2\<rparr>"

section \<open>Index conversion\<close>

lemma sint32_bounds: "- (2 ^ 31) \<le> sint (num :: c_int) \<and> sint num < 2 ^ 31"
  using sint_ge [of num] sint_lt [of num] by simp

lemma to_size_t_eq: "to_size_t num = nat (sint num mod 2 ^ 64)"
proof -
  have "uint (scast num :: 64 word) = sint num mod 2 ^ 64"
    by (simp only: scast_eq [of num] uint_word_of_int) simp
  then show ?thesis
    by (simp only: to_size_t_def unat_eq_nat_uint)
qed

lemma to_size_t_nonneg: "0 \<le> sint num \<Longrightarrow> to_size_t num = nat (sint num)"
proof -
  assume a: "0 \<le> sint num"
  have "sint num < 2 ^ 64" using sint32_bounds [of num] by simp
  with a have "sint num mod 2 ^ 64 = sint num" by simp
  then show ?thesis by (simp only: to_size_t_eq)
qed

lemma to_size_t_neg: "sint num < 0 \<Longrightarrow> to_size_t num = nat (2 ^ 64 + sint num)"
proof -
  assume a: "sint num < 0"
  have b: "- (2 ^ 31) \<le> sint num" using sint32_bounds [of num] by simp
  have "sint num mod 2 ^ 64 = (2 ^ 64 + sint num) mod 2 ^ 64" by simp
  also have "\<dots> = 2 ^ 64 + sint num" using a b by (intro mod_pos_pos_trivial) simp_all
  finally have "sint num mod 2 ^ 64 = 2 ^ 64 + sint num" .
  then show ?thesis by (simp only: to_size_t_eq)
qed

lemma to_size_t_neg_ge: "sint num < 0 \<Longrightarrow> 2 ^ 64 - 2 ^ 31 \<le> to_size_t num"
  using sint32_bounds [of num] by (simp add: to_size_t_neg)

lemma sint_of_nat32: "n < 2 ^ 31 \<Longrightarrow> sint (word_of_nat n :: c_int) = int n"
  by (simp add: signed_of_nat signed_take_bit_int_eq_self)

lemma to_size_t_of_nat: "n < 2 ^ 31 \<Longrightarrow> to_size_t (word_of_nat n) = n"
  by (simp add: to_size_t_nonneg sint_of_nat32)

lemma to_size_t_in_range:
  "index_in_range num v \<Longrightarrow> to_size_t num = nat (sint num) \<and> nat (sint num) < length v"
  by (auto simp add: index_in_range_def to_size_t_nonneg nat_less_iff)

lemma to_size_t_past_end: "int (length v) \<le> sint num \<Longrightarrow> length v \<le> to_size_t num"
proof -
  assume a: "int (length v) \<le> sint num"
  then have "0 \<le> sint num" by simp
  then have "to_size_t num = nat (sint num)" by (rule to_size_t_nonneg)
  with a show ?thesis by simp
qed

lemma to_size_t_negative: "sint num < 0 \<Longrightarrow> fits_vector v \<Longrightarrow> length v \<le> to_size_t num"
proof -
  assume a: "sint num < 0" and b: "fits_vector v"
  from a have "(2::nat) ^ 64 - 2 ^ 31 \<le> to_size_t num" by (rule to_size_t_neg_ge)
  moreover from b have "length v < 2 ^ 63" by (simp add: fits_vector_def)
  ultimately show ?thesis by simp
qed

section \<open>Vector access\<close>

lemma vector_at_in_range:
  "index_in_range num v \<Longrightarrow> vector_at v (to_size_t num) = Inr (v ! nat (sint num))"
  using to_size_t_in_range [of num v] by (simp add: vector_at_def)

lemma vector_index_in_range:
  "index_in_range num v \<Longrightarrow> vector_index v (to_size_t num) = Inr (v ! nat (sint num))"
  using to_size_t_in_range [of num v] by (simp add: vector_index_def)

lemma vector_at_beyond: "length v \<le> n \<Longrightarrow> vector_at v n = Inl OutOfRange"
  by (simp add: vector_at_def)

lemma vector_at_length:
  "length v < 2 ^ 31 \<Longrightarrow> vector_at v (to_size_t (word_of_nat (length v))) = Inl OutOfRange"
  by (simp add: to_size_t_of_nat vector_at_beyond)

lemma vector_at_negative:
  "sint num < 0 \<Longrightarrow> fits_vector v \<Longrightarrow> vector_at v (to_size_t num) = Inl OutOfRange"
  using to_size_t_negative [of num v] by (simp add: vector_at_beyond)

lemmas unchecked_defs =
  body_def joint_def predecessor_def successor_def parent_def transformFrom_def transformTo_def

lemmas checked_defs =
  sBody_def sJoint_def sPredecessor_def sSuccessor_def sParent_def sTransformFrom_def
  sTransformTo_def

lemmas view_defs =
  bodies_def joints_def predecessors_def successors_def parents_def transformsFrom_def
  transformsTo_def

section \<open>Facts about the worked instance\<close>

lemma tree_sizes:
  "length (MB_bodies tree) = 3" "length (MB_joints tree) = 2" "length (MB_pred tree) = 2"
  "length (MB_succ tree) = 2" "length (MB_parent tree) = 3" "length (MB_Xfrom tree) = 2"
  "length (MB_Xto tree) = 2"
  by (simp_all add: tree_def tree_bodies_def tree_joints_def)

lemma tree_in_range:
  "index_in_range 1 (MB_bodies tree)" "index_in_range 1 (MB_joints tree)"
  "index_in_range 1 (MB_pred tree)" "index_in_range 1 (MB_succ tree)"
  "index_in_range 1 (MB_parent tree)" "index_in_range 1 (MB_Xfrom tree)"
  "index_in_range 1 (MB_Xto tree)"
  by (simp_all add: index_in_range_def tree_sizes)

lemma tree_at_1:
  "MB_bodies tree ! Suc 0 = \<lparr>Body_id = 20\<rparr>"
  "MB_joints tree ! Suc 0 = \<lparr>Joint_id = 101, Joint_params = 1, Joint_dof = 1\<rparr>"
  "MB_pred tree ! Suc 0 = 0"
  "MB_succ tree ! Suc 0 = 1"
  "MB_parent tree ! Suc 0 = 0"
  "MB_Xfrom tree ! Suc 0 = 6"
  "MB_Xto tree ! Suc 0 = 8"
  by (simp_all add: tree_def tree_bodies_def tree_joints_def)

lemma tree_ids:
  "MB_bodyId2Ind tree 20 = Some 1" "MB_jointId2Ind tree 101 = Some 1"
  "MB_bodyId2Ind tree 40 = None" "MB_jointId2Ind tree 40 = None"
  by (simp_all add: tree_def)

lemma tree_fits:
  "fits_vector (MB_bodies tree)" "fits_vector (MB_joints tree)" "fits_vector (MB_pred tree)"
  "fits_vector (MB_succ tree)" "fits_vector (MB_parent tree)" "fits_vector (MB_Xfrom tree)"
  "fits_vector (MB_Xto tree)"
  by (simp_all add: fits_vector_def tree_sizes)


section \<open>Checked and unchecked accessors\<close>

text \<open>
  Claim C3. For an index that is a position of the collection, the safe accessor and the
  unchecked accessor of the same field return the same thing, namely the element stored at
  that position: \<open>sBody\<close> and \<open>body\<close>, \<open>sJoint\<close> and \<open>joint\<close>, \<open>sPredecessor\<close> and
  \<open>predecessor\<close>, \<open>sSuccessor\<close> and \<open>successor\<close>, \<open>sParent\<close> and \<open>parent\<close>,
  \<open>sTransformFrom\<close> and \<open>transformFrom\<close>, \<open>sTransformTo\<close> and \<open>transformTo\<close>. For an id
  that is a key of the table, \<open>sBodyIndexById\<close> and \<open>bodyIndexById\<close> return the same
  stored index, and so do \<open>sJointIndexById\<close> and \<open>jointIndexById\<close>.
\<close>

theorem checked_agrees_with_unchecked:
  "(index_in_range num (MB_bodies mb) \<longrightarrow>
      sBody mb num = body mb num \<and> body mb num = Inr (MB_bodies mb ! nat (sint num))) \<and>
   (index_in_range num (MB_joints mb) \<longrightarrow>
      sJoint mb num = joint mb num \<and> joint mb num = Inr (MB_joints mb ! nat (sint num))) \<and>
   (index_in_range num (MB_pred mb) \<longrightarrow>
      sPredecessor mb num = predecessor mb num \<and>
      predecessor mb num = Inr (MB_pred mb ! nat (sint num))) \<and>
   (index_in_range num (MB_succ mb) \<longrightarrow>
      sSuccessor mb num = successor mb num \<and>
      successor mb num = Inr (MB_succ mb ! nat (sint num))) \<and>
   (index_in_range num (MB_parent mb) \<longrightarrow>
      sParent mb num = parent mb num \<and> parent mb num = Inr (MB_parent mb ! nat (sint num))) \<and>
   (index_in_range num (MB_Xfrom mb) \<longrightarrow>
      sTransformFrom mb num = transformFrom mb num \<and>
      transformFrom mb num = Inr (MB_Xfrom mb ! nat (sint num))) \<and>
   (index_in_range num (MB_Xto mb) \<longrightarrow>
      sTransformTo mb num = transformTo mb num \<and>
      transformTo mb num = Inr (MB_Xto mb ! nat (sint num))) \<and>
   (bid \<in> dom (MB_bodyId2Ind mb) \<longrightarrow>
      sBodyIndexById mb bid = bodyIndexById mb bid \<and>
      bodyIndexById mb bid = Inr (the (MB_bodyId2Ind mb bid))) \<and>
   (jid \<in> dom (MB_jointId2Ind mb) \<longrightarrow>
      sJointIndexById mb jid = jointIndexById mb jid \<and>
      jointIndexById mb jid = Inr (the (MB_jointId2Ind mb jid)))"
  by (auto simp add: unchecked_defs checked_defs vector_at_in_range vector_index_in_range
      sBodyIndexById_def bodyIndexById_def sJointIndexById_def jointIndexById_def
      umap_at_def umap_find_second_def)


text \<open>The worked instance at index 1, body id 20 and joint id 101.\<close>

theorem checked_agrees_with_unchecked_witness:
  "index_in_range 1 (MB_bodies tree) \<and> index_in_range 1 (MB_joints tree) \<and>
   index_in_range 1 (MB_pred tree) \<and> index_in_range 1 (MB_succ tree) \<and>
   index_in_range 1 (MB_parent tree) \<and> index_in_range 1 (MB_Xfrom tree) \<and>
   index_in_range 1 (MB_Xto tree) \<and>
   20 \<in> dom (MB_bodyId2Ind tree) \<and> 101 \<in> dom (MB_jointId2Ind tree) \<and>
   sBody tree 1 = body tree 1 \<and> body tree 1 = Inr \<lparr>Body_id = 20\<rparr> \<and>
   sJoint tree 1 = joint tree 1 \<and>
   joint tree 1 = Inr \<lparr>Joint_id = 101, Joint_params = 1, Joint_dof = 1\<rparr> \<and>
   sPredecessor tree 1 = predecessor tree 1 \<and> predecessor tree 1 = Inr 0 \<and>
   sSuccessor tree 1 = successor tree 1 \<and> successor tree 1 = Inr 1 \<and>
   sParent tree 1 = parent tree 1 \<and> parent tree 1 = Inr 0 \<and>
   sTransformFrom tree 1 = transformFrom tree 1 \<and> transformFrom tree 1 = Inr 6 \<and>
   sTransformTo tree 1 = transformTo tree 1 \<and> transformTo tree 1 = Inr 8 \<and>
   sBodyIndexById tree 20 = bodyIndexById tree 20 \<and> bodyIndexById tree 20 = Inr 1 \<and>
   sJointIndexById tree 101 = jointIndexById tree 101 \<and> jointIndexById tree 101 = Inr 1"
proof -
  have d: "20 \<in> dom (MB_bodyId2Ind tree)" "101 \<in> dom (MB_jointId2Ind tree)"
    by (simp_all add: domIff tree_ids)
  show ?thesis
    using checked_agrees_with_unchecked [of 1 tree 20 101] tree_in_range d
    by (simp add: tree_at_1 tree_ids)
qed

text \<open>
  Claim C4. Each safe index accessor (\<open>sBody\<close>, \<open>sJoint\<close>, \<open>sPredecessor\<close>,
  \<open>sSuccessor\<close>, \<open>sParent\<close>, \<open>sTransformFrom\<close>, \<open>sTransformTo\<close>) throws
  \<open>std::out_of_range\<close> for an index outside its collection: for an index at or past the
  length, in particular for the length itself, and for a negative index. It neither returns
  an element nor runs into undefined behaviour.
\<close>

theorem checked_fails_outside_range:
  "(int (length (MB_bodies mb)) \<le> sint num \<longrightarrow> sBody mb num = Inl OutOfRange) \<and>
   (length (MB_bodies mb) < 2 ^ 31 \<longrightarrow> sBody mb (word_of_nat (length (MB_bodies mb))) = Inl OutOfRange) \<and>
   (sint neg < 0 \<and> fits_vector (MB_bodies mb) \<longrightarrow> sBody mb neg = Inl OutOfRange) \<and>
   (int (length (MB_joints mb)) \<le> sint num \<longrightarrow> sJoint mb num = Inl OutOfRange) \<and>
   (length (MB_joints mb) < 2 ^ 31 \<longrightarrow> sJoint mb (word_of_nat (length (MB_joints mb))) = Inl OutOfRange) \<and>
   (sint neg < 0 \<and> fits_vector (MB_joints mb) \<longrightarrow> sJoint mb neg = Inl OutOfRange) \<and>
   (int (length (MB_pred mb)) \<le> sint num \<longrightarrow> sPredecessor mb num = Inl OutOfRange) \<and>
   (length (MB_pred mb) < 2 ^ 31 \<longrightarrow> sPredecessor mb (word_of_nat (length (MB_pred mb))) = Inl OutOfRange) \<and>
   (sint neg < 0 \<and> fits_vector (MB_pred mb) \<longrightarrow> sPredecessor mb neg = Inl OutOfRange) \<and>
   (int (length (MB_succ mb)) \<le> sint num \<longrightarrow> sSuccessor mb num = Inl OutOfRange) \<and>
   (length (MB_succ mb) < 2 ^ 31 \<longrightarrow> sSuccessor mb (word_of_nat (length (MB_succ mb))) = Inl OutOfRange) \<and>
   (sint neg < 0 \<and> fits_vector (MB_succ mb) \<longrightarrow> sSuccessor mb neg = Inl OutOfRange) \<and>
   (int (length (MB_parent mb)) \<le> sint num \<longrightarrow> sParent mb num = Inl OutOfRange) \<and>
   (length (MB_parent mb) < 2 ^ 31 \<longrightarrow> sParent mb (word_of_nat (length (MB_parent mb))) = Inl OutOfRange) \<and>
   (sint neg < 0 \<and> fits_vector (MB_parent mb) \<longrightarrow> sParent mb neg = Inl OutOfRange) \<and>
   (int (length (MB_Xfrom mb)) \<le> sint num \<longrightarrow> sTransformFrom mb num = Inl OutOfRange) \<and>
   (length (MB_Xfrom mb) < 2 ^ 31 \<longrightarrow> sTransformFrom mb (word_of_nat (length (MB_Xfrom mb))) = Inl OutOfRange) \<and>
   (sint neg < 0 \<and> fits_vector (MB_Xfrom mb) \<longrightarrow> sTransformFrom mb neg = Inl OutOfRange) \<and>
   (int (length (MB_Xto mb)) \<le> sint num \<longrightarrow> sTransformTo mb num = Inl OutOfRange) \<and>
   (length (MB_Xto mb) < 2 ^ 31 \<longrightarrow> sTransformTo mb (word_of_nat (length (MB_Xto mb))) = Inl OutOfRange) \<and>
   (sint neg < 0 \<and> fits_vector (MB_Xto mb) \<longrightarrow> sTransformTo mb neg = Inl OutOfRange)"
  by (simp add: checked_defs to_size_t_past_end vector_at_beyond vector_at_length
      vector_at_negative)

text \<open>
  The worked instance at index 3, at the lengths 3 and 2 of its collections, and at index -1.
\<close>

theorem checked_fails_outside_range_witness:
  "int (length (MB_bodies tree)) \<le> sint (3 :: c_int) \<and>
   int (length (MB_joints tree)) \<le> sint (3 :: c_int) \<and>
   int (length (MB_pred tree)) \<le> sint (3 :: c_int) \<and>
   int (length (MB_succ tree)) \<le> sint (3 :: c_int) \<and>
   int (length (MB_parent tree)) \<le> sint (3 :: c_int) \<and>
   int (length (MB_Xfrom tree)) \<le> sint (3 :: c_int) \<and>
   int (length (MB_Xto tree)) \<le> sint (3 :: c_int) \<and>
   length (MB_bodies tree) < 2 ^ 31 \<and> length (MB_joints tree) < 2 ^ 31 \<and>
   length (MB_pred tree) < 2 ^ 31 \<and> length (MB_succ tree) < 2 ^ 31 \<and>
   length (MB_parent tree) < 2 ^ 31 \<and> length (MB_Xfrom tree) < 2 ^ 31 \<and>
   length (MB_Xto tree) < 2 ^ 31 \<and>
   sint (- 1 :: c_int) < 0 \<and>
   fits_vector (MB_bodies tree) \<and> fits_vector (MB_joints tree) \<and> fits_vector (MB_pred tree) \<and>
   fits_vector (MB_succ tree) \<and> fits_vector (MB_parent tree) \<and> fits_vector (MB_Xfrom tree) \<and>
   fits_vector (MB_Xto tree) \<and>
   sBody tree 3 = Inl OutOfRange \<and> sBody tree (- 1) = Inl OutOfRange \<and>
   sJoint tree 3 = Inl OutOfRange \<and> sJoint tree 2 = Inl OutOfRange \<and>
   sJoint tree (- 1) = Inl OutOfRange \<and>
   sPredecessor tree 3 = Inl OutOfRange \<and> sPredecessor tree 2 = Inl OutOfRange \<and>
   sPredecessor tree (- 1) = Inl OutOfRange \<and>
   sSuccessor tree 3 = Inl OutOfRange \<and> sSuccessor tree 2 = Inl OutOfRange \<and>
   sSuccessor tree (- 1) = Inl OutOfRange \<and>
   sParent tree 3 = Inl OutOfRange \<and> sParent tree (- 1) = Inl OutOfRange \<and>
   sTransformFrom tree 3 = Inl OutOfRange \<and> sTransformFrom tree 2 = Inl OutOfRange \<and>
   sTransformFrom tree (- 1) = Inl OutOfRange \<and>
   sTransformTo tree 3 = Inl OutOfRange \<and> sTransformTo tree 2 = Inl OutOfRange \<and>
   sTransformTo tree (- 1) = Inl OutOfRange"
  using checked_fails_outside_range [of tree 3 "- 1"] tree_fits
  by (simp add: tree_sizes)

text \<open>
  Claim C9. A negative index converts to an unsigned position that is not below the size of
  the collection, so each safe index accessor throws \<open>std::out_of_range\<close> for it, exactly as
  \<open>at\<close> does for the position one past the end; no element is read.
\<close>

theorem negative_index_rejected:
  "sint num < 0 \<Longrightarrow>
   (fits_vector (MB_bodies mb) \<longrightarrow>
      length (MB_bodies mb) \<le> to_size_t num \<and> sBody mb num = Inl OutOfRange \<and>
      sBody mb num = vector_at (MB_bodies mb) (length (MB_bodies mb))) \<and>
   (fits_vector (MB_joints mb) \<longrightarrow>
      length (MB_joints mb) \<le> to_size_t num \<and> sJoint mb num = Inl OutOfRange \<and>
      sJoint mb num = vector_at (MB_joints mb) (length (MB_joints mb))) \<and>
   (fits_vector (MB_pred mb) \<longrightarrow>
      length (MB_pred mb) \<le> to_size_t num \<and> sPredecessor mb num = Inl OutOfRange \<and>
      sPredecessor mb num = vector_at (MB_pred mb) (length (MB_pred mb))) \<and>
   (fits_vector (MB_succ mb) \<longrightarrow>
      length (MB_succ mb) \<le> to_size_t num \<and> sSuccessor mb num = Inl OutOfRange \<and>
      sSuccessor mb num = vector_at (MB_succ mb) (length (MB_succ mb))) \<and>
   (fits_vector (MB_parent mb) \<longrightarrow>
      length (MB_parent mb) \<le> to_size_t num \<and> sParent mb num = Inl OutOfRange \<and>
      sParent mb num = vector_at (MB_parent mb) (length (MB_parent mb))) \<and>
   (fits_vector (MB_Xfrom mb) \<longrightarrow>
      length (MB_Xfrom mb) \<le> to_size_t num \<and> sTransformFrom mb num = Inl OutOfRange \<and>
      sTransformFrom mb num = vector_at (MB_Xfrom mb) (length (MB_Xfrom mb))) \<and>
   (fits_vector (MB_Xto mb) \<longrightarrow>
      length (MB_Xto mb) \<le> to_size_t num \<and> sTransformTo mb num = Inl OutOfRange \<and>
      sTransformTo mb num = vector_at (MB_Xto mb) (length (MB_Xto mb)))"
  by (simp add: checked_defs to_size_t_negative vector_at_beyond)

text \<open>The worked instance at index -1, which converts to a position beyond 3.\<close>

theorem negative_index_rejected_witness:
  "sint (- 1 :: c_int) < 0 \<and>
   fits_vector (MB_bodies tree) \<and> fits_vector (MB_joints tree) \<and> fits_vector (MB_pred tree) \<and>
   fits_vector (MB_succ tree) \<and> fits_vector (MB_parent tree) \<and> fits_vector (MB_Xfrom tree) \<and>
   fits_vector (MB_Xto tree) \<and>
   3 \<le> to_size_t (- 1) \<and>
   sBody tree (- 1) = Inl OutOfRange \<and> sJoint tree (- 1) = Inl OutOfRange \<and>
   sPredecessor tree (- 1) = Inl OutOfRange \<and> sSuccessor tree (- 1) = Inl OutOfRange \<and>
   sParent tree (- 1) = Inl OutOfRange \<and> sTransformFrom tree (- 1) = Inl OutOfRange \<and>
   sTransformTo tree (- 1) = Inl OutOfRange"
proof -
  have n: "sint (- 1 :: c_int) < 0" by simp
  show ?thesis
    using negative_index_rejected [OF n, of tree] tree_fits n
    by (simp add: tree_sizes)
qed

section \<open>Whole-sequence views\<close>

text \<open>
  Claim C10. The views agree with the counts and with the element accessors:
  \<open>bodies().size()\<close> is \<open>nrBodies()\<close>, \<open>joints().size()\<close> is \<open>nrJoints()\<close>, and at an index
  in range each of \<open>bodies()\<close>, \<open>joints()\<close>, \<open>predecessors()\<close>, \<open>successors()\<close>,
  \<open>parents()\<close>, \<open>transformsFrom()\<close>, \<open>transformsTo()\<close> holds what \<open>body\<close>, \<open>joint\<close>,
  \<open>predecessor\<close>, \<open>successor\<close>, \<open>parent\<close>, \<open>transformFrom\<close>, \<open>transformTo\<close> return.
\<close>

theorem views_agree_with_accessors:
  "length (bodies mb) = nrBodies mb \<and> length (joints mb) = nrJoints mb \<and>
   (index_in_range num (bodies mb) \<longrightarrow>
      vector_index (bodies mb) (to_size_t num) = body mb num \<and>
      body mb num = Inr (bodies mb ! nat (sint num))) \<and>
   (index_in_range num (joints mb) \<longrightarrow>
      vector_index (joints mb) (to_size_t num) = joint mb num \<and>
      joint mb num = Inr (joints mb ! nat (sint num))) \<and>
   (index_in_range num (predecessors mb) \<longrightarrow>
      vector_index (predecessors mb) (to_size_t num) = predecessor mb num \<and>
      predecessor mb num = Inr (predecessors mb ! nat (sint num))) \<and>
   (index_in_range num (successors mb) \<longrightarrow>
      vector_index (successors mb) (to_size_t num) = successor mb num \<and>
      successor mb num = Inr (successors mb ! nat (sint num))) \<and>
   (index_in_range num (parents mb) \<longrightarrow>
      vector_index (parents mb) (to_size_t num) = parent mb num \<and>
      parent mb num = Inr (parents mb ! nat (sint num))) \<and>
   (index_in_range num (transformsFrom mb) \<longrightarrow>
      vector_index (transformsFrom mb) (to_size_t num) = transformFrom mb num \<and>
      transformFrom mb num = Inr (transformsFrom mb ! nat (sint num))) \<and>
   (index_in_range num (transformsTo mb) \<longrightarrow>
      vector_index (transformsTo mb) (to_size_t num) = transformTo mb num \<and>
      transformTo mb num = Inr (transformsTo mb ! nat (sint num)))"
  by (simp add: view_defs nrBodies_def nrJoints_def unchecked_defs vector_index_in_range)

text \<open>The worked instance at index 1.\<close>

theorem views_agree_with_accessors_witness:
  "index_in_range 1 (bodies tree) \<and> index_in_range 1 (joints tree) \<and>
   index_in_range 1 (predecessors tree) \<and> index_in_range 1 (successors tree) \<and>
   index_in_range 1 (parents tree) \<and> index_in_range 1 (transformsFrom tree) \<and>
   index_in_range 1 (transformsTo tree) \<and>
   nrBodies tree = 3 \<and> nrJoints tree = 2 \<and>
   body tree 1 = Inr (bodies tree ! 1) \<and> joint tree 1 = Inr (joints tree ! 1) \<and>
   predecessor tree 1 = Inr (predecessors tree ! 1) \<and>
   successor tree 1 = Inr (successors tree ! 1) \<and>
   parent tree 1 = Inr (parents tree ! 1) \<and>
   transformFrom tree 1 = Inr (transformsFrom tree ! 1) \<and>
   transformTo tree 1 = Inr (transformsTo tree ! 1)"
proof -
  have r: "index_in_range 1 (bodies tree)" "index_in_range 1 (joints tree)"
    "index_in_range 1 (predecessors tree)" "index_in_range 1 (successors tree)"
    "index_in_range 1 (parents tree)" "index_in_range 1 (transformsFrom tree)"
    "index_in_range 1 (transformsTo tree)"
    by (simp_all add: view_defs tree_in_range)
  have s: "length (bodies tree) = 3" "length (joints tree) = 2"
    by (simp_all add: view_defs tree_sizes)
  show ?thesis
    using views_agree_with_accessors [of tree 1] r s by simp
qed


section \<open>The id tables\<close>

lemma id2ind_other: "k \<notin> set ks \<Longrightarrow> id2ind ks i m k = m k"
  by (induction ks arbitrary: i m) auto

lemma id2ind_last_occurrence:
  "n < length ks \<Longrightarrow> (\<forall>p. n < p \<and> p < length ks \<longrightarrow> ks ! p \<noteq> ks ! n) \<Longrightarrow>
   id2ind ks i m (ks ! n) = Some (word_of_nat (i + n))"
proof (induction ks arbitrary: i m n)
  case Nil
  then show ?case by simp
next
  case (Cons k ks)
  show ?case
  proof (cases n)
    case 0
    have "k \<notin> set ks"
    proof
      assume "k \<in> set ks"
      then obtain q where q: "q < length ks" "ks ! q = k"
        by (auto simp add: in_set_conv_nth)
      with Cons.prems(2) [rule_format, of "Suc q"] 0 show False by simp
    qed
    then have "id2ind ks (Suc i) (m(k \<mapsto> word_of_nat i)) k = Some (word_of_nat i)"
      by (simp add: id2ind_other)
    with 0 show ?thesis by simp
  next
    case (Suc n')
    from Cons.prems(1) Suc have a: "n' < length ks" by simp
    have b: "\<forall>p. n' < p \<and> p < length ks \<longrightarrow> ks ! p \<noteq> ks ! n'"
    proof (intro allI impI)
      fix p assume "n' < p \<and> p < length ks"
      with Cons.prems(2) [rule_format, of "Suc p"] Suc show "ks ! p \<noteq> ks ! n'" by simp
    qed
    have "id2ind ks (Suc i) (m(k \<mapsto> word_of_nat i)) (ks ! n') = Some (word_of_nat (Suc i + n'))"
      by (rule Cons.IH [OF a b])
    moreover have "(k # ks) ! n = ks ! n'" and "i + n = Suc i + n'"
      using Suc by simp_all
    ultimately show ?thesis by (simp only: id2ind.simps)
  qed
qed

lemma id2ind_distinct:
  "distinct ks \<Longrightarrow> n < length ks \<Longrightarrow> id2ind ks 0 m (ks ! n) = Some (word_of_nat n)"
  using id2ind_last_occurrence [of n ks 0 m] by (auto simp add: nth_eq_iff_index_eq)

section \<open>The sums\<close>

lemma fold_add: "fold (\<lambda>c acc. acc + c) cs (a :: c_int) = a + sum_list cs"
  by (induction cs arbitrary: a) (simp_all add: add.assoc)

lemma sum_counts_eq: "sum_counts cs = sum_list cs"
  by (simp add: sum_counts_def fold_add)

lemma word_of_int_sum_sint: "(word_of_int (\<Sum>c\<leftarrow>cs. sint c) :: c_int) = sum_list cs"
  by (induction cs) simp_all

lemma sint_word_of_int32: "int_range k \<Longrightarrow> sint (word_of_int k :: c_int) = k"
  by (simp add: int_range_def signed_of_int signed_take_bit_int_eq_self)

lemma sint_sum_list:
  "int_range (\<Sum>c\<leftarrow>cs. sint c) \<Longrightarrow> sint (sum_list cs :: c_int) = (\<Sum>c\<leftarrow>cs. sint c)"
  using sint_word_of_int32 [of "\<Sum>c\<leftarrow>cs. sint c"] by (simp only: word_of_int_sum_sint)

section \<open>The constructor\<close>

lemma ctor_Inr:
  "MultiBody_ctor bs js pred succ par Xfrom Xto = Inr mb \<Longrightarrow>
   lengths_consistent bs js pred succ par Xfrom Xto \<and>
   MB_bodies mb = bs \<and> MB_joints mb = js \<and>
   MB_bodyId2Ind mb = id2ind (map Body_id bs) 0 Map.empty \<and>
   MB_jointId2Ind mb = id2ind (map Joint_id js) 0 Map.empty \<and>
   MB_nrParams mb = sum_list (map Joint_params js) \<and>
   MB_nrDof mb = sum_list (map Joint_dof js)"
  by (auto simp add: MultiBody_ctor_def sum_counts_eq split: if_splits)

lemma ctor_tree:
  "MultiBody_ctor tree_bodies tree_joints [0, 0] [0, 1] [- 1, 0, 0] [5, 6] [7, 8] = Inr tree"
  by (simp add: MultiBody_ctor_def lengths_consistent_def tree_def tree_bodies_def
      tree_joints_def sum_counts_def)

section \<open>What construction establishes\<close>

text \<open>
  Claim C1. After a construction that succeeds, \<open>nrParams()\<close> is the sum of \<open>params\<close> over
  the joints handed to the constructor and \<open>nrDof()\<close> the sum of \<open>dof\<close> over them. The sums
  are taken in \<open>int\<close> arithmetic; where the mathematical sum is itself an \<open>int\<close>, the value
  read is that sum.
\<close>

theorem nrParams_nrDof_are_sums:
  "MultiBody_ctor bs js pred succ par Xfrom Xto = Inr mb \<Longrightarrow>
   nrParams mb = (\<Sum>j\<leftarrow>js. Joint_params j) \<and>
   nrDof mb = (\<Sum>j\<leftarrow>js. Joint_dof j) \<and>
   (int_range (\<Sum>j\<leftarrow>js. sint (Joint_params j)) \<longrightarrow>
      sint (nrParams mb) = (\<Sum>j\<leftarrow>js. sint (Joint_params j))) \<and>
   (int_range (\<Sum>j\<leftarrow>js. sint (Joint_dof j)) \<longrightarrow>
      sint (nrDof mb) = (\<Sum>j\<leftarrow>js. sint (Joint_dof j)))"
proof -
  assume c: "MultiBody_ctor bs js pred succ par Xfrom Xto = Inr mb"
  have p: "nrParams mb = sum_list (map Joint_params js)"
    and d: "nrDof mb = sum_list (map Joint_dof js)"
    using ctor_Inr [OF c] by (simp_all add: nrParams_def nrDof_def)
  have "sint (nrParams mb) = (\<Sum>j\<leftarrow>js. sint (Joint_params j))"
    if "int_range (\<Sum>j\<leftarrow>js. sint (Joint_params j))"
    using that sint_sum_list [of "map Joint_params js"] by (simp add: p comp_def)
  moreover have "sint (nrDof mb) = (\<Sum>j\<leftarrow>js. sint (Joint_dof j))"
    if "int_range (\<Sum>j\<leftarrow>js. sint (Joint_dof j))"
    using that sint_sum_list [of "map Joint_dof js"] by (simp add: d comp_def)
  ultimately show ?thesis using p d by simp
qed

text \<open>The worked instance: two joints with one parameter and one degree of freedom each.\<close>

theorem nrParams_nrDof_are_sums_witness:
  "MultiBody_ctor tree_bodies tree_joints [0, 0] [0, 1] [- 1, 0, 0] [5, 6] [7, 8] = Inr tree \<and>
   int_range (\<Sum>j\<leftarrow>tree_joints. sint (Joint_params j)) \<and>
   int_range (\<Sum>j\<leftarrow>tree_joints. sint (Joint_dof j)) \<and>
   nrParams tree = 2 \<and> nrDof tree = 2 \<and> sint (nrParams tree) = 2 \<and> sint (nrDof tree) = 2"
proof -
  have r: "int_range (\<Sum>j\<leftarrow>tree_joints. sint (Joint_params j))"
    "int_range (\<Sum>j\<leftarrow>tree_joints. sint (Joint_dof j))"
    by (simp_all add: tree_joints_def int_range_def)
  have v: "(\<Sum>j\<leftarrow>tree_joints. Joint_params j) = 2" "(\<Sum>j\<leftarrow>tree_joints. Joint_dof j) = 2"
    "(\<Sum>j\<leftarrow>tree_joints. sint (Joint_params j)) = 2"
    "(\<Sum>j\<leftarrow>tree_joints. sint (Joint_dof j)) = 2"
    by (simp_all add: tree_joints_def)
  show ?thesis
    using nrParams_nrDof_are_sums [OF ctor_tree] r ctor_tree by (simp add: v)
qed

text \<open>
  Claim C2. After a construction that succeeds from bodies with pairwise different ids,
  \<open>sBodyIndexById\<close> applied to the id of the body at position \<open>i\<close> returns \<open>i\<close>; likewise
  \<open>sJointIndexById\<close> for joints with pairwise different ids. The index is returned as an
  \<open>int\<close>, which reads as the position as long as the sequence has at most \<open>2^31\<close> elements.
\<close>

theorem id_lookup_returns_position:
  "MultiBody_ctor bs js pred succ par Xfrom Xto = Inr mb \<Longrightarrow>
   (distinct (map Body_id bs) \<and> i < length bs \<longrightarrow>
      sBodyIndexById mb (Body_id (bs ! i)) = Inr (word_of_nat i) \<and>
      (length bs \<le> 2 ^ 31 \<longrightarrow> sint (word_of_nat i :: c_int) = int i)) \<and>
   (distinct (map Joint_id js) \<and> n < length js \<longrightarrow>
      sJointIndexById mb (Joint_id (js ! n)) = Inr (word_of_nat n) \<and>
      (length js \<le> 2 ^ 31 \<longrightarrow> sint (word_of_nat n :: c_int) = int n))"
proof -
  assume c: "MultiBody_ctor bs js pred succ par Xfrom Xto = Inr mb"
  have "sBodyIndexById mb (Body_id (bs ! i)) = Inr (word_of_nat i)"
    if "distinct (map Body_id bs)" "i < length bs"
    using that ctor_Inr [OF c] id2ind_distinct [of "map Body_id bs" i Map.empty]
    by (simp add: sBodyIndexById_def umap_at_def)
  moreover have "sJointIndexById mb (Joint_id (js ! n)) = Inr (word_of_nat n)"
    if "distinct (map Joint_id js)" "n < length js"
    using that ctor_Inr [OF c] id2ind_distinct [of "map Joint_id js" n Map.empty]
    by (simp add: sJointIndexById_def umap_at_def)
  moreover have "sint (word_of_nat k :: c_int) = int k" if "k < m" "m \<le> 2 ^ 31" for k m :: nat
    using that by (simp add: sint_of_nat32)
  ultimately show ?thesis by blast
qed

text \<open>The worked instance: body id 20 and joint id 101 both sit at position 1.\<close>

theorem id_lookup_returns_position_witness:
  "MultiBody_ctor tree_bodies tree_joints [0, 0] [0, 1] [- 1, 0, 0] [5, 6] [7, 8] = Inr tree \<and>
   distinct (map Body_id tree_bodies) \<and> 1 < length tree_bodies \<and>
   length tree_bodies \<le> 2 ^ 31 \<and>
   distinct (map Joint_id tree_joints) \<and> 1 < length tree_joints \<and>
   length tree_joints \<le> 2 ^ 31 \<and>
   Body_id (tree_bodies ! 1) = 20 \<and> sBodyIndexById tree 20 = Inr 1 \<and>
   Joint_id (tree_joints ! 1) = 101 \<and> sJointIndexById tree 101 = Inr 1 \<and>
   sint (1 :: c_int) = 1"
proof -
  have h: "distinct (map Body_id tree_bodies)" "1 < length tree_bodies"
    "length tree_bodies \<le> 2 ^ 31"
    "distinct (map Joint_id tree_joints)" "1 < length tree_joints"
    "length tree_joints \<le> 2 ^ 31"
    "Body_id (tree_bodies ! 1) = 20" "Joint_id (tree_joints ! 1) = 101"
    by (simp_all add: tree_bodies_def tree_joints_def)
  show ?thesis
    using id_lookup_returns_position [OF ctor_tree, of 1 1] h ctor_tree by simp
qed

section \<open>Unknown ids\<close>

text \<open>
  Claim C5 says that a safe id lookup fails, for an id that is not in its table, with an
  error of another kind than the one the safe index accessors raise. In the worked
  instance the id 40 is in neither table, and \<open>sBodyIndexById\<close> and \<open>sJointIndexById\<close> end
  in exactly what \<open>sParent\<close> and \<open>sPredecessor\<close> end in one past the end of their vectors:
  \<open>std::out_of_range\<close>.
\<close>

theorem unknown_id_is_out_of_range_counterexample:
  "MB_bodyId2Ind tree 40 = None \<and> MB_jointId2Ind tree 40 = None \<and>
   sBodyIndexById tree 40 = Inl OutOfRange \<and> sJointIndexById tree 40 = Inl OutOfRange \<and>
   sParent tree 3 = Inl OutOfRange \<and> sPredecessor tree 2 = Inl OutOfRange \<and>
   sBodyIndexById tree 40 = sParent tree 3 \<and> sJointIndexById tree 40 = sPredecessor tree 2"
  by (simp add: sBodyIndexById_def sJointIndexById_def umap_at_def tree_ids sParent_def
      sPredecessor_def vector_at_def tree_sizes to_size_t_nonneg)

text \<open>
  Claim C5, amended. For an id that is not a key of the body id table, \<open>sBodyIndexById\<close>
  throws \<open>std::out_of_range\<close>, and for an id that is not a key of the joint id table
  \<open>sJointIndexById\<close> does: the same exception that \<open>std::vector::at\<close> throws one past the end
  of a vector, here of \<open>parent_\<close> and of \<open>pred_\<close>.
\<close>

theorem unknown_id_throws_out_of_range:
  "(bid \<notin> dom (MB_bodyId2Ind mb) \<longrightarrow>
      sBodyIndexById mb bid = Inl OutOfRange \<and>
      sBodyIndexById mb bid = vector_at (MB_parent mb) (length (MB_parent mb))) \<and>
   (jid \<notin> dom (MB_jointId2Ind mb) \<longrightarrow>
      sJointIndexById mb jid = Inl OutOfRange \<and>
      sJointIndexById mb jid = vector_at (MB_pred mb) (length (MB_pred mb)))"
  by (auto simp add: sBodyIndexById_def sJointIndexById_def umap_at_def vector_at_def domIff)

text \<open>The worked instance and the id 40.\<close>

theorem unknown_id_throws_out_of_range_witness:
  "40 \<notin> dom (MB_bodyId2Ind tree) \<and> 40 \<notin> dom (MB_jointId2Ind tree) \<and>
   sBodyIndexById tree 40 = Inl OutOfRange \<and> sJointIndexById tree 40 = Inl OutOfRange"
proof -
  have d: "40 \<notin> dom (MB_bodyId2Ind tree)" "40 \<notin> dom (MB_jointId2Ind tree)"
    by (simp_all add: domIff tree_ids)
  show ?thesis
    using unknown_id_throws_out_of_range [of 40 tree 40] d by simp
qed

section \<open>Construction from sequences of different lengths\<close>

text \<open>
  Claim C6. When \<open>bodies\<close> and \<open>parent\<close> differ in length, or \<open>joints\<close> and one of \<open>pred\<close>,
  \<open>succ\<close>, \<open>Xfrom\<close>, \<open>Xto\<close> do, construction fails with \<open>StructuralMismatch\<close> and yields
  no object.
\<close>

theorem mismatched_lengths_rejected:
  "length bs \<noteq> length par \<or> length js \<noteq> length pred \<or> length js \<noteq> length succ \<or>
   length js \<noteq> length Xfrom \<or> length js \<noteq> length Xto \<Longrightarrow>
   MultiBody_ctor bs js pred succ par Xfrom Xto = Inl StructuralMismatch \<and>
   (\<forall>mb. MultiBody_ctor bs js pred succ par Xfrom Xto \<noteq> Inr mb)"
  by (auto simp add: MultiBody_ctor_def lengths_consistent_def)

text \<open>Three bodies and a \<open>parent\<close> sequence of two entries.\<close>

theorem mismatched_lengths_rejected_witness:
  "length tree_bodies = 3 \<and> length [- 1, 0 :: c_int] = 2 \<and>
   length tree_bodies \<noteq> length [- 1, 0 :: c_int] \<and>
   MultiBody_ctor tree_bodies tree_joints [0, 0] [0, 1] [- 1, 0] [5, 6] [7, 8 :: nat]
     = Inl StructuralMismatch"
proof -
  have h: "length tree_bodies \<noteq> length [- 1, 0 :: c_int]"
    by (simp add: tree_bodies_def)
  show ?thesis
    using mismatched_lengths_rejected [of tree_bodies "[- 1, 0]" tree_joints "[0, 0]" "[0, 1]"
        "[5, 6 :: nat]" "[7, 8]"] h
    by (simp add: tree_bodies_def)
qed

end
